theory Spec2Isabelle
  imports Main
begin

section \<open>Python values, exceptions and futures\<close>

text \<open>
  The exceptions the broker can meet. \<open>InvalidStateError\<close> is both the module's own
  class (raised by \<open>close\<close> and \<open>__enter__\<close>) and the one of \<open>concurrent.futures\<close>
  (raised when a finished future is set again); the message tells them apart.
  \<open>KeyboardInterrupt\<close> is the interrupt every request body re-raises.
\<close>

datatype exc =
    KeyboardInterrupt
  | InvalidStateError string
  | AttributeError string
  | AssertionError
  | ValueError string
  | OSError string
  | EOFError

text \<open>Object identities: sessions, futures and streams are shared by reference.\<close>

type_synonym sid = nat
type_synonym fid = nat
type_synonym oid = nat
type_synonym iid = nat

text \<open>The arguments \<open>*data\<close> of \<open>write\<close>, and the results a future can carry.\<close>

datatype pyval = PStr string | PInt int | PBool bool | PNone

datatype val = VStr string | VInt int | VNone | VSession sid

text \<open>
  \<open>concurrent.futures.Future\<close>: \<open>set_result\<close> and \<open>set_exception\<close> raise
  \<open>InvalidStateError\<close> on a future that is already finished or cancelled.
\<close>

datatype future = Pending | Finished val | Failed exc | Cancelled

definition set_result :: "future \<Rightarrow> val \<Rightarrow> exc + future" where
  "set_result fu v =
     (if fu = Pending then Inr (Finished v) else Inl (InvalidStateError ''future is done''))"

definition set_exception :: "future \<Rightarrow> exc \<Rightarrow> exc + future" where
  "set_exception fu e =
     (if fu = Pending then Inr (Failed e) else Inl (InvalidStateError ''future is done''))"

text \<open>
  \<open>threading.Event\<close>: the flag, and a count of the calls of \<open>set()\<close> so that
  "fires once" can be said of a call.
\<close>

record event =
  flag :: bool
  set_calls :: nat

definition Event_new :: event where
  "Event_new = \<lparr>flag = False, set_calls = 0\<rparr>"

definition Event_set :: "event \<Rightarrow> event" where
  "Event_set e = e\<lparr>flag := True, set_calls := set_calls e + 1\<rparr>"

definition is_set :: "event \<Rightarrow> bool" where
  "is_set e = flag e"

section \<open>Streams\<close>

text \<open>
  The streams are the collaborators of the broker: an input stream answers \<open>readline()\<close>,
  an output stream takes \<open>write(msg)\<close> and \<open>flush()\<close>. An input stream is the script
  of its next answers, each a line or an exception; at the end of the script it is at end
  of file and answers the empty string. \<open>calls\<close> counts the \<open>readline()\<close> calls made.
\<close>

datatype reply = Line string | Fault exc

record istream =
  script :: "reply list"
  calls :: nat

definition readline :: "istream \<Rightarrow> (exc + string) \<times> istream" where
  "readline i =
     (case script i of
        [] \<Rightarrow> (Inr [], i\<lparr>calls := calls i + 1\<rparr>)
      | Line l # rest \<Rightarrow> (Inr l, \<lparr>script = rest, calls = calls i + 1\<rparr>)
      | Fault e # rest \<Rightarrow> (Inl e, \<lparr>script = rest, calls = calls i + 1\<rparr>))"

text \<open>
  An output stream holds the text written and not yet flushed, and the text delivered by
  a flush. \<open>write\<close> returns the number of characters it took, as a text stream does. A
  stream may be faulty: then \<open>write\<close> (or \<open>flush\<close>) raises and changes nothing.
\<close>

record ostream =
  buffered :: string
  delivered :: string
  write_fault :: "exc option"
  flush_fault :: "exc option"

definition ostream_write :: "ostream \<Rightarrow> string \<Rightarrow> (exc + nat) \<times> ostream" where
  "ostream_write out msg =
     (case write_fault out of
        Some e \<Rightarrow> (Inl e, out)
      | None \<Rightarrow> (Inr (length msg), out\<lparr>buffered := buffered out @ msg\<rparr>))"

definition ostream_flush :: "ostream \<Rightarrow> exc option \<times> ostream" where
  "ostream_flush out =
     (case flush_fault out of
        Some e \<Rightarrow> (Some e, out)
      | None \<Rightarrow> (None, out\<lparr>buffered := [], delivered := delivered out @ buffered out\<rparr>))"

definition stream_text :: "ostream \<Rightarrow> string" where
  "stream_text out = delivered out @ buffered out"

section \<open>The helpers of \<open>utils\<close>\<close>

text \<open>
  Modelled from the spec: \<open>utils.isempty\<close> and \<open>utils.shift\<close> are imported by
  \<open>from .utils import *\<close> and their module is not among the sources. The spec reads
  \<open>isempty(buffer)\<close> as "the buffer is currently empty" and \<open>shift(queue)\<close> as taking
  "the earliest item" out of the queue.
\<close>

definition isempty :: "'a list \<Rightarrow> bool" where
  "isempty xs = (xs = [])"

definition shift :: "'a list \<Rightarrow> ('a \<times> 'a list) option" where
  "shift xs = (case xs of [] \<Rightarrow> None | x # rest \<Rightarrow> Some (x, rest))"

section \<open>RequestQueue\<close>

text \<open>
  The queue is the list \<open>self.queue\<close>; the condition variable only orders the threads.
  \<open>wait_for\<close> is \<open>cond.wait_for(lambda: not isempty(self.queue), wait)\<close>: it returns at
  once when the queue is not empty; otherwise the thread sleeps, and \<open>arrivals\<close> are the
  requests other threads push meanwhile. With nothing arriving it returns when the timeout
  elapses, and never (\<open>None\<close>) when there is no timeout. Timeouts are in milliseconds.
\<close>

type_synonym timeout = "nat option"

definition push :: "'a list \<Rightarrow> 'a \<Rightarrow> 'a list" where
  "push queue req = queue @ [req]"

definition wait_for :: "'a list \<Rightarrow> timeout \<Rightarrow> 'a list \<Rightarrow> 'a list option" where
  "wait_for queue wait arrivals =
     (if \<not> isempty queue then Some queue
      else if \<not> isempty arrivals then Some (queue @ arrivals)
      else (case wait of None \<Rightarrow> None | Some t \<Rightarrow> Some queue))"

definition pop :: "'a list \<Rightarrow> timeout \<Rightarrow> 'a list \<Rightarrow> ('a option \<times> 'a list) option" where
  "pop queue wait arrivals =
     (case wait_for queue wait arrivals of
        None \<Rightarrow> None
      | Some q \<Rightarrow>
          Some (if \<not> isempty q
                then (case shift q of Some (req, rest) \<Rightarrow> (Some req, rest) | None \<Rightarrow> (None, q))
                else (None, q)))"

definition clear :: "'a list \<Rightarrow> 'a list" where
  "clear queue = []"

text \<open>\<open>n\<close> pops in a row by one thread, nothing arriving: the results and the queue left.\<close>

fun pops :: "nat \<Rightarrow> 'a list \<Rightarrow> timeout \<Rightarrow> ('a option list \<times> 'a list) option" where
  "pops 0 queue wait = Some ([], queue)"
| "pops (Suc n) queue wait =
     (case pop queue wait [] of
        None \<Rightarrow> None
      | Some (r, q) \<Rightarrow>
          (case pops n q wait of None \<Rightarrow> None | Some (rs, q') \<Rightarrow> Some (r # rs, q')))"

lemma pop_Cons: "pop (x # xs) wait arrivals = Some (Some x, xs)"
  by (simp add: pop_def wait_for_def isempty_def shift_def)

lemma pop_Nil_timeout: "pop [] (Some t) [] = Some (None, [])"
  by (simp add: pop_def wait_for_def isempty_def)

lemma pop_Nil_forever: "pop [] None [] = None"
  by (simp add: pop_def wait_for_def isempty_def)

section \<open>Text\<close>

text \<open>
  Python's \<open>s[:n]\<close> and \<open>s[n:]\<close> for any integer \<open>n\<close> (a negative \<open>n\<close> counts from the
  end), \<open>s.index(c)\<close>, which raises \<open>ValueError\<close> when \<open>c\<close> is not in \<open>s\<close>, and
  \<open>sep.join(parts)\<close>. Strings are lists of characters.
\<close>

definition newline :: char where
  "newline = CHR 0x0A"

definition slice_to :: "'a list \<Rightarrow> int \<Rightarrow> 'a list" where
  "slice_to s n = (if 0 \<le> n then take (nat n) s else take (length s - nat (- n)) s)"

definition slice_from :: "'a list \<Rightarrow> int \<Rightarrow> 'a list" where
  "slice_from s n = (if 0 \<le> n then drop (nat n) s else drop (length s - nat (- n)) s)"

fun str_index :: "string \<Rightarrow> char \<Rightarrow> exc + nat" where
  "str_index [] c = Inl (ValueError ''substring not found'')"
| "str_index (x # xs) c =
     (if x = c then Inr 0
      else (case str_index xs c of Inl e \<Rightarrow> Inl e | Inr i \<Rightarrow> Inr (Suc i)))"

fun join :: "string \<Rightarrow> string list \<Rightarrow> string" where
  "join sep [] = []"
| "join sep [x] = x"
| "join sep (x # y # ys) = x @ sep @ join sep (y # ys)"

text \<open>\<open>str(dat)\<close> for the values of \<open>pyval\<close>: an integer in decimal, a string as it is.\<close>

definition digit :: "nat \<Rightarrow> char" where
  "digit d = ''0123456789'' ! d"

fun digits :: "nat \<Rightarrow> string" where
  "digits n = (if n < 10 then [digit n] else digits (n div 10) @ [digit (n mod 10)])"

definition str_int :: "int \<Rightarrow> string" where
  "str_int i = (if i < 0 then CHR ''-'' # digits (nat (- i)) else digits (nat i))"

fun str :: "pyval \<Rightarrow> string" where
  "str (PStr s) = s"
| "str (PInt i) = str_int i"
| "str (PBool b) = (if b then ''True'' else ''False'')"
| "str PNone = ''None''"

definition buildmsg :: "pyval list \<Rightarrow> string \<Rightarrow> string" where
  "buildmsg data sep = join sep (map str data)"

section \<open>Sessions, requests and the state of the program\<close>

text \<open>
  A request is its class with the constructor's arguments (\<open>WriteRequest msg autoflush err\<close>,
  \<open>FlushRequest flush_stdout flush_stderr\<close>) and the future \<open>BaseRequest.__init__\<close>
  creates for it.
\<close>

datatype request_kind =
    ReadRequest int
  | ReadAllRequest
  | ReadlineRequest
  | PasswordRequest string
  | WriteRequest string bool bool
  | FlushRequest bool bool
  | SessionRequest sid

record request =
  kind :: request_kind
  cfuture :: fid

text \<open>
  The fields of \<open>Session\<close>. \<open>pending\<close> is the list of its RequestQueue, \<open>thread\<close> says
  whether \<open>_thread\<close> is set, the streams are references into the state.
\<close>

record session =
  parent :: "sid option"
  buffer :: string
  pending :: "request list"
  subsession :: "sid option"
  thread :: bool
  finish_event :: event
  autoflush :: bool
  stdout :: oid
  stderr :: oid
  stdin :: iid

text \<open>
  The state: the objects by identity, the next fresh identities, and \<open>tty\<close>, the script of
  the terminal that \<open>getpass\<close> reads.
\<close>

record world =
  sessions :: "sid \<Rightarrow> session"
  next_session :: sid
  futures :: "fid \<Rightarrow> future"
  next_future :: fid
  ostreams :: "oid \<Rightarrow> ostream"
  istreams :: "iid \<Rightarrow> istream"
  tty :: "reply list"

definition sys_stdout :: oid where "sys_stdout = 0"
definition sys_stderr :: oid where "sys_stderr = 1"
definition sys_stdin :: iid where "sys_stdin = 0"

text \<open>
  \<open>Session.__init__\<close>. A stream or a session given as an argument is an object, so it is
  true in a condition; \<open>None\<close> is the argument left out.
\<close>

definition Session_init ::
  "world \<Rightarrow> sid option \<Rightarrow> bool option \<Rightarrow> oid option \<Rightarrow> oid option \<Rightarrow> iid option
     \<Rightarrow> sid \<times> world" where
  "Session_init w parent' autoflush' stdout' stderr' stdin' =
     (let self =
        (case parent' of
           Some p \<Rightarrow>
             \<lparr>parent = parent', buffer = [], pending = [], subsession = None, thread = False,
              finish_event = Event_new,
              autoflush = (case autoflush' of Some a \<Rightarrow> a | None \<Rightarrow> autoflush (sessions w p)),
              stdout = (case stdout' of Some out \<Rightarrow> out | None \<Rightarrow> stdout (sessions w p)),
              stderr = (case stderr' of Some out \<Rightarrow> out | None \<Rightarrow> stderr (sessions w p)),
              stdin = (case stdin' of Some inp \<Rightarrow> inp | None \<Rightarrow> stdin (sessions w p))\<rparr>
         | None \<Rightarrow>
             \<lparr>parent = parent', buffer = [], pending = [], subsession = None, thread = False,
              finish_event = Event_new,
              autoflush = (case autoflush' of Some a \<Rightarrow> a | None \<Rightarrow> False),
              stdout = (case stdout' of Some out \<Rightarrow> out | None \<Rightarrow> sys_stdout),
              stderr = (case stderr' of Some out \<Rightarrow> out | None \<Rightarrow> sys_stderr),
              stdin = (case stdin' of Some inp \<Rightarrow> inp | None \<Rightarrow> sys_stdin)\<rparr>)
      in (next_session w,
          w\<lparr>sessions := (sessions w)(next_session w := self),
            next_session := next_session w + 1\<rparr>))"

text \<open>
  The module's \<open>_session = Session(autoflush=True)\<close> is the first session made, on a state
  that holds the process's streams and terminal and nothing else.
\<close>

definition no_session :: session where
  "no_session = \<lparr>parent = None, buffer = [], pending = [], subsession = None, thread = False,
     finish_event = Event_new, autoflush = False, stdout = sys_stdout, stderr = sys_stderr,
     stdin = sys_stdin\<rparr>"

definition process :: "(oid \<Rightarrow> ostream) \<Rightarrow> (iid \<Rightarrow> istream) \<Rightarrow> reply list \<Rightarrow> world" where
  "process outs ins keys =
     \<lparr>sessions = (\<lambda>_. no_session), next_session = 0, futures = (\<lambda>_. Pending),
      next_future = 0, ostreams = outs, istreams = ins, tty = keys\<rparr>"

definition root :: sid where
  "root = 0"

definition module_init :: "(oid \<Rightarrow> ostream) \<Rightarrow> (iid \<Rightarrow> istream) \<Rightarrow> reply list \<Rightarrow> world" where
  "module_init outs ins keys =
     snd (Session_init (process outs ins keys) None (Some True) None None None)"

text \<open>\<open>BaseRequest.__init__\<close> makes the future; \<open>ReadRequest.__init__\<close> then asserts.\<close>

definition BaseRequest_init :: "world \<Rightarrow> request_kind \<Rightarrow> request \<times> world" where
  "BaseRequest_init w k =
     (\<lparr>kind = k, cfuture = next_future w\<rparr>,
      w\<lparr>futures := (futures w)(next_future w := Pending), next_future := next_future w + 1\<rparr>)"

definition ReadRequest_init :: "world \<Rightarrow> int \<Rightarrow> (exc + request) \<times> world" where
  "ReadRequest_init w n =
     (case BaseRequest_init w (ReadRequest n) of
        (req, w') \<Rightarrow> if 0 \<le> n then (Inr req, w') else (Inl AssertionError, w'))"

section \<open>Executing a request\<close>

text \<open>
  How a call ends: it returns, it raises, or (in \<open>wait\<close> and \<open>pop\<close>) it blocks for good
  because only another thread could wake it.
\<close>

datatype outcome = Returned | Raised exc | Blocked

definition io_write :: "world \<Rightarrow> oid \<Rightarrow> string \<Rightarrow> (exc + nat) \<times> world" where
  "io_write w io msg =
     (case ostream_write (ostreams w io) msg of
        (r, out) \<Rightarrow> (r, w\<lparr>ostreams := (ostreams w)(io := out)\<rparr>))"

definition io_flush :: "world \<Rightarrow> oid \<Rightarrow> exc option \<times> world" where
  "io_flush w io =
     (case ostream_flush (ostreams w io) of
        (r, out) \<Rightarrow> (r, w\<lparr>ostreams := (ostreams w)(io := out)\<rparr>))"

definition io_readline :: "world \<Rightarrow> iid \<Rightarrow> (exc + string) \<times> world" where
  "io_readline w io =
     (case readline (istreams w io) of
        (r, inp) \<Rightarrow> (r, w\<lparr>istreams := (istreams w)(io := inp)\<rparr>))"

text \<open>
  \<open>getpass(prompt, stream)\<close>, the terminal capability: it writes the prompt to the stream
  and reads one line of the terminal without echo; at the end of the terminal's input it
  raises \<open>EOFError\<close>.
\<close>

definition getpass :: "world \<Rightarrow> string \<Rightarrow> oid \<Rightarrow> (exc + string) \<times> world" where
  "getpass w prompt stream =
     (case io_write w stream prompt of
        (Inl e, w1) \<Rightarrow> (Inl e, w1)
      | (Inr n, w1) \<Rightarrow>
          (case tty w1 of
             [] \<Rightarrow> (Inl EOFError, w1)
           | Line l # rest \<Rightarrow> (Inr l, w1\<lparr>tty := rest\<rparr>)
           | Fault e # rest \<Rightarrow> (Inl e, w1\<lparr>tty := rest\<rparr>)))"

text \<open>
  The two \<open>except\<close> clauses every request body ends with: \<open>KeyboardInterrupt\<close> is raised
  again, anything else goes to \<open>cfuture.set_exception\<close> (which can raise in its turn).
  \<open>try_set_result\<close> is a \<open>cfuture.set_result(v)\<close> that stands inside the \<open>try\<close>.
\<close>

definition except_clauses :: "world \<Rightarrow> fid \<Rightarrow> exc \<Rightarrow> outcome \<times> world" where
  "except_clauses w f e =
     (if e = KeyboardInterrupt then (Raised e, w)
      else (case set_exception (futures w f) e of
              Inl e' \<Rightarrow> (Raised e', w)
            | Inr fu \<Rightarrow> (Returned, w\<lparr>futures := (futures w)(f := fu)\<rparr>)))"

definition try_set_result :: "world \<Rightarrow> fid \<Rightarrow> val \<Rightarrow> outcome \<times> world" where
  "try_set_result w f v =
     (case set_result (futures w f) v of
        Inl e \<Rightarrow> except_clauses w f e
      | Inr fu \<Rightarrow> (Returned, w\<lparr>futures := (futures w)(f := fu)\<rparr>))"

text \<open>
  The three \<open>_execute\<close> methods, on the buffer: the result and the buffer left.
  \<open>ReadlineRequest._execute\<close> catches the \<open>ValueError\<close> of \<open>index\<close> and no other.
\<close>

definition ReadRequest_execute :: "int \<Rightarrow> string \<Rightarrow> exc + string \<times> string" where
  "ReadRequest_execute n buf = Inr (slice_to buf n, slice_from buf n)"

definition ReadAllRequest_execute :: "string \<Rightarrow> exc + string \<times> string" where
  "ReadAllRequest_execute buf = Inr (buf, [])"

definition ReadlineRequest_execute :: "string \<Rightarrow> exc + string \<times> string" where
  "ReadlineRequest_execute buf =
     (case str_index buf newline of
        Inr idx \<Rightarrow> Inr (slice_to buf (int idx + 1), slice_from buf (int idx + 1))
      | Inl (ValueError m) \<Rightarrow> Inr (buf, [])
      | Inl e \<Rightarrow> Inl e)"

text \<open>
  \<open>BaseReadRequest.execute\<close>. The refill stands before the \<open>try\<close>: what \<open>readline\<close>
  raises leaves \<open>execute\<close> as it is.
\<close>

definition BaseReadRequest_execute ::
  "(string \<Rightarrow> exc + string \<times> string) \<Rightarrow> world \<Rightarrow> sid \<Rightarrow> fid \<Rightarrow> outcome \<times> world" where
  "BaseReadRequest_execute execute' w s f =
     (case (if isempty (buffer (sessions w s))
            then (case io_readline w (stdin (sessions w s)) of
                    (Inl e, w1) \<Rightarrow> (Some e, w1)
                  | (Inr l, w1) \<Rightarrow>
                      (None, w1\<lparr>sessions := (sessions w1)
                                  (s := (sessions w1 s)\<lparr>buffer := buffer (sessions w1 s) @ l\<rparr>)\<rparr>))
            else (None, w)) of
        (Some e, w2) \<Rightarrow> (Raised e, w2)
      | (None, w2) \<Rightarrow>
          (case execute' (buffer (sessions w2 s)) of
             Inl e \<Rightarrow> except_clauses w2 f e
           | Inr (result, rest) \<Rightarrow>
               try_set_result
                 (w2\<lparr>sessions := (sessions w2)(s := (sessions w2 s)\<lparr>buffer := rest\<rparr>)\<rparr>)
                 f (VStr result)))"

definition PasswordRequest_execute :: "string \<Rightarrow> world \<Rightarrow> sid \<Rightarrow> fid \<Rightarrow> outcome \<times> world" where
  "PasswordRequest_execute prompt w s f =
     (case getpass w prompt (stderr (sessions w s)) of
        (Inl e, w1) \<Rightarrow> except_clauses w1 f e
      | (Inr pw, w1) \<Rightarrow> try_set_result w1 f (VStr pw))"

definition WriteRequest_execute ::
  "string \<Rightarrow> bool \<Rightarrow> bool \<Rightarrow> world \<Rightarrow> sid \<Rightarrow> fid \<Rightarrow> outcome \<times> world" where
  "WriteRequest_execute msg autoflush' err w s f =
     (let io = (if \<not> err then stdout (sessions w s) else stderr (sessions w s)) in
      case io_write w io msg of
        (Inl e, w1) \<Rightarrow> except_clauses w1 f e
      | (Inr written, w1) \<Rightarrow>
          (case (if autoflush' then io_flush w1 io else (None, w1)) of
             (Some e, w2) \<Rightarrow> except_clauses w2 f e
           | (None, w2) \<Rightarrow> try_set_result w2 f (VInt (int written))))"

text \<open>
  \<open>FlushRequest.execute\<close> starts with \<open>session = session.get()\<close>. The class \<open>Session\<close>
  defines no \<open>get\<close> and has no base class but \<open>object\<close>, so the attribute lookup raises
  \<open>AttributeError\<close> on every session.
\<close>

definition Session_get :: "world \<Rightarrow> sid \<Rightarrow> exc + sid" where
  "Session_get w s = Inl (AttributeError ''Session object has no attribute get'')"

definition FlushRequest_execute :: "bool \<Rightarrow> bool \<Rightarrow> world \<Rightarrow> sid \<Rightarrow> fid \<Rightarrow> outcome \<times> world" where
  "FlushRequest_execute flush_stdout flush_stderr w s f =
     (case Session_get w s of
        Inl e \<Rightarrow> except_clauses w f e
      | Inr s' \<Rightarrow>
          (case (if flush_stdout then io_flush w (stdout (sessions w s')) else (None, w)) of
             (Some e, w1) \<Rightarrow> except_clauses w1 f e
           | (None, w1) \<Rightarrow>
               (case (if flush_stderr then io_flush w1 (stderr (sessions w1 s')) else (None, w1)) of
                  (Some e, w2) \<Rightarrow> except_clauses w2 f e
                | (None, w2) \<Rightarrow> try_set_result w2 f VNone)))"

text \<open>
  \<open>Session.wait\<close> returns once the finish event is set; by itself the waiting thread
  never sets it. \<open>SessionRequest.execute\<close> has no \<open>try\<close>.
\<close>

definition Session_wait :: "world \<Rightarrow> sid \<Rightarrow> outcome" where
  "Session_wait w s = (if is_set (finish_event (sessions w s)) then Returned else Blocked)"

definition SessionRequest_execute :: "sid \<Rightarrow> world \<Rightarrow> sid \<Rightarrow> fid \<Rightarrow> outcome \<times> world" where
  "SessionRequest_execute sub w s f =
     (let w1 = w\<lparr>sessions := (sessions w)(s := (sessions w s)\<lparr>subsession := Some sub\<rparr>)\<rparr> in
      case set_result (futures w1 f) (VSession sub) of
        Inl e \<Rightarrow> (Raised e, w1)
      | Inr fu \<Rightarrow>
          (let w2 = w1\<lparr>futures := (futures w1)(f := fu)\<rparr> in
           case Session_wait w2 sub of
             Returned \<Rightarrow>
               (Returned,
                w2\<lparr>sessions := (sessions w2)(s := (sessions w2 s)\<lparr>subsession := None\<rparr>)\<rparr>)
           | out \<Rightarrow> (out, w2)))"

definition execute :: "world \<Rightarrow> sid \<Rightarrow> request \<Rightarrow> outcome \<times> world" where
  "execute w s req =
     (case kind req of
        ReadRequest n \<Rightarrow> BaseReadRequest_execute (ReadRequest_execute n) w s (cfuture req)
      | ReadAllRequest \<Rightarrow> BaseReadRequest_execute ReadAllRequest_execute w s (cfuture req)
      | ReadlineRequest \<Rightarrow> BaseReadRequest_execute ReadlineRequest_execute w s (cfuture req)
      | PasswordRequest prompt \<Rightarrow> PasswordRequest_execute prompt w s (cfuture req)
      | WriteRequest msg autoflush' err \<Rightarrow>
          WriteRequest_execute msg autoflush' err w s (cfuture req)
      | FlushRequest flush_stdout flush_stderr \<Rightarrow>
          FlushRequest_execute flush_stdout flush_stderr w s (cfuture req)
      | SessionRequest sub \<Rightarrow> SessionRequest_execute sub w s (cfuture req))"

section \<open>The methods of Session\<close>

text \<open>
  \<open>_commit\<close> pushes the request and makes sure the session has a worker thread; the
  caller gets the request's future. The \<open>async\<close> methods build their request and commit
  it. An argument that may be left out is an \<open>option\<close>.
\<close>

definition commit :: "world \<Rightarrow> sid \<Rightarrow> request \<Rightarrow> fid \<times> world" where
  "commit w s req =
     (cfuture req,
      w\<lparr>sessions := (sessions w)
           (s := (sessions w s)\<lparr>pending := push (pending (sessions w s)) req, thread := True\<rparr>)\<rparr>)"

definition submit :: "world \<Rightarrow> sid \<Rightarrow> request_kind \<Rightarrow> fid \<times> world" where
  "submit w s k = (case BaseRequest_init w k of (req, w1) \<Rightarrow> commit w1 s req)"

definition Session_read :: "world \<Rightarrow> sid \<Rightarrow> int option \<Rightarrow> (exc + fid) \<times> world" where
  "Session_read w s n' =
     (let n = (case n' of Some n \<Rightarrow> n | None \<Rightarrow> - 1) in
      if n < 0 then (case submit w s ReadAllRequest of (f, w1) \<Rightarrow> (Inr f, w1))
      else (case ReadRequest_init w n of
              (Inl e, w1) \<Rightarrow> (Inl e, w1)
            | (Inr req, w1) \<Rightarrow> (case commit w1 s req of (f, w2) \<Rightarrow> (Inr f, w2))))"

definition Session_readline :: "world \<Rightarrow> sid \<Rightarrow> fid \<times> world" where
  "Session_readline w s = submit w s ReadlineRequest"

definition Session_password :: "world \<Rightarrow> sid \<Rightarrow> string option \<Rightarrow> fid \<times> world" where
  "Session_password w s prompt' =
     submit w s (PasswordRequest (case prompt' of Some p \<Rightarrow> p | None \<Rightarrow> ''Enter password: ''))"

definition Session_write ::
  "world \<Rightarrow> sid \<Rightarrow> pyval list \<Rightarrow> string option \<Rightarrow> bool option \<Rightarrow> bool option \<Rightarrow> fid \<times> world" where
  "Session_write w s data sep' err' autoflush' =
     submit w s
       (WriteRequest
          (buildmsg data (case sep' of Some sep \<Rightarrow> sep | None \<Rightarrow> '' ''))
          (case autoflush' of Some a \<Rightarrow> a | None \<Rightarrow> autoflush (sessions w s))
          (case err' of Some e \<Rightarrow> e | None \<Rightarrow> False))"


definition Session_flush :: "world \<Rightarrow> sid \<Rightarrow> bool option \<Rightarrow> bool option \<Rightarrow> fid \<times> world" where
  "Session_flush w s flush_stdout' flush_stderr' =
     submit w s
       (FlushRequest (case flush_stdout' of Some b \<Rightarrow> b | None \<Rightarrow> True)
                     (case flush_stderr' of Some b \<Rightarrow> b | None \<Rightarrow> True))"

definition Session_session ::
  "world \<Rightarrow> sid \<Rightarrow> bool option \<Rightarrow> oid option \<Rightarrow> oid option \<Rightarrow> iid option \<Rightarrow> fid \<times> world" where
  "Session_session w s autoflush' stdout' stderr' stdin' =
     (case Session_init w (Some s) autoflush' stdout' stderr' stdin' of
        (sub, w1) \<Rightarrow> submit w1 s (SessionRequest sub))"

definition Session_close :: "world \<Rightarrow> sid \<Rightarrow> (exc + unit) \<times> world" where
  "Session_close w s =
     (if s = root then (Inl (InvalidStateError ''Cannot close global session''), w)
      else (Inr (),
            w\<lparr>sessions := (sessions w)
                 (s := (sessions w s)\<lparr>pending := clear (pending (sessions w s)),
                                      finish_event := Event_set (finish_event (sessions w s))\<rparr>)\<rparr>))"

definition Session_isclosed :: "world \<Rightarrow> sid \<Rightarrow> bool" where
  "Session_isclosed w s = is_set (finish_event (sessions w s))"


definition Session_exit :: "world \<Rightarrow> sid \<Rightarrow> (exc + unit) \<times> world" where
  "Session_exit w s = Session_close w s"

text \<open>
  The module's functions: \<open>read\<close>, \<open>write\<close> and the others are the root's methods, and
  \<open>session(autoflush: bool = False)\<close> passes its argument, given or not, to the root.
\<close>

definition session :: "world \<Rightarrow> bool option \<Rightarrow> fid \<times> world" where
  "session w autoflush' =
     Session_session w root (Some (case autoflush' of Some a \<Rightarrow> a | None \<Rightarrow> False))
       None None None"

section \<open>The worker\<close>

text \<open>
  \<open>_runner\<close>, run by one thread with no other thread acting meanwhile. The loop executes
  the request it holds and pops the next with the grace period of 10 ms; it ends when a
  pop returns null. Before it, \<open>while self.subsession: self.subsession.wait()\<close> can only
  be left when another thread clears \<open>subsession\<close>, and the first \<open>pop()\<close> has no timeout.
\<close>

definition set_pending :: "world \<Rightarrow> sid \<Rightarrow> request list \<Rightarrow> world" where
  "set_pending w s q = w\<lparr>sessions := (sessions w)(s := (sessions w s)\<lparr>pending := q\<rparr>)\<rparr>"

definition queue_size :: "world \<Rightarrow> sid \<Rightarrow> nat" where
  "queue_size w s = length (pending (sessions w s))"

lemma except_clauses_sessions:
  "except_clauses w f e = (out, w') \<Longrightarrow> sessions w' = sessions w"
  by (auto simp: except_clauses_def split: if_splits sum.splits)

lemma try_set_result_sessions:
  "try_set_result w f v = (out, w') \<Longrightarrow> sessions w' = sessions w"
  by (auto simp: try_set_result_def split: sum.splits dest: except_clauses_sessions)

lemma io_write_sessions: "io_write w io msg = (r, w') \<Longrightarrow> sessions w' = sessions w"
  by (auto simp: io_write_def split: prod.splits)

lemma io_flush_sessions: "io_flush w io = (r, w') \<Longrightarrow> sessions w' = sessions w"
  by (auto simp: io_flush_def split: prod.splits)

lemma io_readline_sessions: "io_readline w io = (r, w') \<Longrightarrow> sessions w' = sessions w"
  by (auto simp: io_readline_def split: prod.splits)

lemma getpass_sessions: "getpass w prompt io = (r, w') \<Longrightarrow> sessions w' = sessions w"
  by (auto simp: getpass_def split: prod.splits sum.splits list.splits reply.splits
      dest: io_write_sessions)

lemma BaseReadRequest_execute_pending:
  "BaseReadRequest_execute ex w s f = (out, w')
     \<Longrightarrow> pending (sessions w' t) = pending (sessions w t)"
  by (auto simp: BaseReadRequest_execute_def
      split: if_splits prod.splits sum.splits option.splits
      dest!: io_readline_sessions except_clauses_sessions try_set_result_sessions)

lemma PasswordRequest_execute_sessions:
  "PasswordRequest_execute prompt w s f = (out, w') \<Longrightarrow> sessions w' = sessions w"
  by (auto simp: PasswordRequest_execute_def split: prod.splits sum.splits
      dest!: getpass_sessions except_clauses_sessions try_set_result_sessions)

lemma WriteRequest_execute_sessions:
  "WriteRequest_execute msg af err w s f = (out, w') \<Longrightarrow> sessions w' = sessions w"
  by (auto simp: WriteRequest_execute_def Let_def
      split: prod.splits sum.splits option.splits if_splits
      dest!: io_write_sessions io_flush_sessions except_clauses_sessions
        try_set_result_sessions)

lemma FlushRequest_execute_sessions:
  "FlushRequest_execute fo fe w s f = (out, w') \<Longrightarrow> sessions w' = sessions w"
  by (auto simp: FlushRequest_execute_def Session_get_def dest!: except_clauses_sessions)

lemma SessionRequest_execute_pending:
  "SessionRequest_execute sub w s f = (out, w')
     \<Longrightarrow> pending (sessions w' t) = pending (sessions w t)"
  by (auto simp: SessionRequest_execute_def Let_def split: sum.splits outcome.splits)

lemma execute_pending:
  "execute w s req = (out, w') \<Longrightarrow> pending (sessions w' t) = pending (sessions w t)"
  by (auto simp: execute_def split: request_kind.splits
      dest: BaseReadRequest_execute_pending SessionRequest_execute_pending
        PasswordRequest_execute_sessions WriteRequest_execute_sessions
        FlushRequest_execute_sessions)

lemma pop_shorter:
  "pop q wait [] = Some (Some req, q') \<Longrightarrow> length q' < length q"
  by (cases q) (auto simp: pop_def wait_for_def isempty_def shift_def split: option.splits)

lemma pop_null:
  "pop q wait [] = Some (None, q') \<Longrightarrow> q' = []"
  by (cases q) (auto simp: pop_def wait_for_def isempty_def shift_def split: option.splits)

lemma runner_loop_decreases:
  assumes ex: "(out, w1) = execute w s req"
    and p: "pop (pending (sessions w1 s)) (Some t) [] = Some (req', q)"
  shows "queue_size (set_pending w1 s q) s + (case req' of None \<Rightarrow> 0 | Some _ \<Rightarrow> 1)
    < Suc (queue_size w s)"
proof -
  from ex have same: "pending (sessions w1 s) = pending (sessions w s)"
    using execute_pending [of w s req out w1 s] by simp
  show ?thesis
  proof (cases req')
    case None
    with p have "q = []" by (simp add: pop_null)
    with None show ?thesis by (simp add: queue_size_def set_pending_def)
  next
    case (Some r)
    with p same have "length q < length (pending (sessions w s))"
      using pop_shorter [of "pending (sessions w1 s)" "Some t" r q] by simp
    with Some show ?thesis by (simp add: queue_size_def set_pending_def)
  qed
qed

function runner_loop :: "world \<Rightarrow> sid \<Rightarrow> request option \<Rightarrow> outcome \<times> world" where
  "runner_loop w s None = (Returned, w)"
| "runner_loop w s (Some req) =
     (case execute w s req of
        (out, w1) \<Rightarrow>
          if out = Returned
          then (case pop (pending (sessions w1 s)) (Some 10) [] of
                  None \<Rightarrow> (Blocked, w1)
                | Some (req', q) \<Rightarrow> runner_loop (set_pending w1 s q) s req')
          else (out, w1))"
  by pat_completeness auto
termination
  by (relation "measure (\<lambda>(w, s, r). queue_size w s + (case r of None \<Rightarrow> 0 | Some _ \<Rightarrow> 1))")
    (auto intro: runner_loop_decreases)

definition runner :: "world \<Rightarrow> sid \<Rightarrow> outcome \<times> world" where
  "runner w s =
     (case subsession (sessions w s) of
        Some sub \<Rightarrow> (Blocked, w)
      | None \<Rightarrow>
          (case pop (pending (sessions w s)) None [] of
             None \<Rightarrow> (Blocked, w)
           | Some (req, q) \<Rightarrow>
               (case runner_loop (set_pending w s q) s req of
                  (out, w1) \<Rightarrow>
                    if out = Returned
                    then (Returned,
                          w1\<lparr>sessions := (sessions w1)(s := (sessions w1 s)\<lparr>thread := False\<rparr>)\<rparr>)
                    else (out, w1))))"

section \<open>Streams and states for the examples\<close>

text \<open>A healthy empty output stream, and an input stream with a script.\<close>

definition quiet :: ostream where
  "quiet = \<lparr>buffered = [], delivered = [], write_fault = None, flush_fault = None\<rparr>"

definition typed :: "reply list \<Rightarrow> istream" where
  "typed answers = \<lparr>script = answers, calls = 0\<rparr>"

text \<open>An output stream that holds unflushed text, and one whose calls all raise.\<close>

definition unflushed :: "string \<Rightarrow> ostream" where
  "unflushed txt = \<lparr>buffered = txt, delivered = [], write_fault = None, flush_fault = None\<rparr>"

definition broken :: "exc \<Rightarrow> ostream" where
  "broken e = \<lparr>buffered = [], delivered = [], write_fault = Some e, flush_fault = Some e\<rparr>"

text \<open>The module just imported, with the root session's buffer seeded.\<close>

definition seeded :: "string \<Rightarrow> reply list \<Rightarrow> world" where
  "seeded buf answers =
     (let w = module_init (\<lambda>_. quiet) (\<lambda>_. typed answers) []
      in w\<lparr>sessions := (sessions w)(root := (sessions w root)\<lparr>buffer := buf\<rparr>)\<rparr>)"

section \<open>The queue is first in, first out\<close>

lemma pops_all: "pops (length xs) xs wait = Some (map Some xs, [])"
  by (induction xs) (simp_all add: pop_Cons)

lemma foldl_push: "foldl push q rs = q @ rs"
  by (induction rs arbitrary: q) (simp_all add: push_def)

lemma pops_all_then_null:
  "pops (Suc (length xs)) xs (Some t) = Some (map Some xs @ [None], [])"
  by (induction xs) (simp_all add: pop_Cons pop_Nil_timeout)

text \<open>
  C9: RequestQueue is first in, first out. \<open>push\<close> appends the request at the end;
  \<open>pop\<close> on a queue that holds something returns its earliest item and removes it;
  \<open>pop\<close> with a timeout on a queue that is empty and stays empty returns null;
  \<open>clear\<close> leaves the queue empty. So after the pushes \<open>rs\<close> onto a queue \<open>q\<close>, as many
  pops as there are items return the items of \<open>q\<close> and then \<open>rs\<close> in push order and leave
  the queue empty, and one more pop with a timeout returns null.
\<close>

theorem RequestQueue_fifo:
  "push q r = q @ [r]
   \<and> pop (x # q) wait arrivals = Some (Some x, q)
   \<and> pop [] (Some t) [] = Some (None, [])
   \<and> clear q = []
   \<and> pops (length (q @ rs)) (foldl push q rs) wait = Some (map Some (q @ rs), [])
   \<and> pops (Suc (length rs)) (foldl push (clear q) rs) (Some t) = Some (map Some rs @ [None], [])"
proof -
  have fifo: "pops (length (q @ rs)) (foldl push q rs) wait = Some (map Some (q @ rs), [])"
    unfolding foldl_push by (rule pops_all)
  have drained: "pops (Suc (length rs)) (foldl push (clear q) rs) (Some t)
      = Some (map Some rs @ [None], [])"
    unfolding foldl_push clear_def append_Nil by (rule pops_all_then_null)
  show ?thesis
    using fifo drained by (simp add: push_def pop_Cons pop_Nil_timeout clear_def)
qed

theorem RequestQueue_fifo_witness:
  "pops 3 (push (push (push [] (1::nat)) 2) 3) None = Some ([Some 1, Some 2, Some 3], [])
   \<and> pop (push (push [] (1::nat)) 2) None [] = Some (Some 1, [2])
   \<and> pops 3 (push (push (clear [7::nat]) 1) 2) (Some 10) = Some ([Some 1, Some 2, None], [])"
  using RequestQueue_fifo [where q = "[]::nat list" and rs = "[1, 2, 3]" and wait = None]
    RequestQueue_fifo [where q = "[7::nat]" and x = 1 and rs = "[1, 2]" and wait = None
      and arrivals = "[]" and t = 10]
  by (simp add: push_def clear_def pop_Cons pop_Nil_timeout eval_nat_numeral)

section \<open>Reading\<close>







lemma BaseReadRequest_execute_buffered:
  assumes "buffer (sessions w s) \<noteq> []" and "futures w f = Pending"
    and "ex (buffer (sessions w s)) = Inr (res, rest)"
  shows "BaseReadRequest_execute ex w s f =
     (Returned, w\<lparr>sessions := (sessions w)(s := (sessions w s)\<lparr>buffer := rest\<rparr>),
                  futures := (futures w)(f := Finished (VStr res))\<rparr>)"
  using assms
  by (simp add: BaseReadRequest_execute_def isempty_def try_set_result_def set_result_def)

lemma BaseReadRequest_execute_refill:
  assumes "buffer (sessions w s) = []" and "futures w f = Pending"
    and "readline (istreams w (stdin (sessions w s))) = (Inr l, inp)"
    and "ex l = Inr (res, rest)"
  shows "BaseReadRequest_execute ex w s f =
     (Returned, w\<lparr>istreams := (istreams w)(stdin (sessions w s) := inp),
                  sessions := (sessions w)(s := (sessions w s)\<lparr>buffer := rest\<rparr>),
                  futures := (futures w)(f := Finished (VStr res))\<rparr>)"
  using assms
  by (simp add: BaseReadRequest_execute_def isempty_def try_set_result_def set_result_def
      io_readline_def)

lemma BaseReadRequest_execute_fault:
  assumes "buffer (sessions w s) = []"
    and "readline (istreams w (stdin (sessions w s))) = (Inl e, inp)"
  shows "BaseReadRequest_execute ex w s f =
     (Raised e, w\<lparr>istreams := (istreams w)(stdin (sessions w s) := inp)\<rparr>)"
  using assms
  by (simp add: BaseReadRequest_execute_def isempty_def io_readline_def)

lemma readline_calls: "calls (snd (readline i)) = calls i + 1"
  by (simp add: readline_def split: list.splits reply.splits)






section \<open>A call and the worker that serves it\<close>

lemma set_pending_same: "pending (sessions w s) = q \<Longrightarrow> set_pending w s q = w"
  by (auto simp: set_pending_def)

lemma runner_loop_last:
  assumes "execute w s req = (Returned, w1)" and "pending (sessions w s) = []"
  shows "runner_loop w s (Some req) = (Returned, w1)"
proof -
  have e: "pending (sessions w1 s) = []"
    using execute_pending [OF assms(1), of s] assms(2) by simp
  then have "set_pending w1 s [] = w1" by (rule set_pending_same)
  then show ?thesis using assms(1) e by (simp add: pop_Nil_timeout)
qed

lemma runner_loop_stops:
  assumes "execute w s req = (out, w1)" and "out \<noteq> Returned"
  shows "runner_loop w s (Some req) = (out, w1)"
  using assms by simp

lemma runner_one_request:
  assumes idle: "subsession (sessions w s) = None" and one: "pending (sessions w s) = [req]"
    and ex: "execute (set_pending w s []) s req = (Returned, w1)"
  shows "runner w s =
    (Returned, w1\<lparr>sessions := (sessions w1)(s := (sessions w1 s)\<lparr>thread := False\<rparr>)\<rparr>)"
proof -
  have "runner_loop (set_pending w s []) s (Some req) = (Returned, w1)"
    using ex by (rule runner_loop_last) (simp add: set_pending_def)
  then show ?thesis
    using idle one by (simp add: runner_def pop_Cons)
qed

lemma submit_eq:
  "submit w s k =
     (next_future w,
      w\<lparr>futures := (futures w)(next_future w := Pending), next_future := next_future w + 1,
        sessions := (sessions w)
          (s := (sessions w s)\<lparr>pending := pending (sessions w s) @ [\<lparr>kind = k, cfuture = next_future w\<rparr>],
                               thread := True\<rparr>)\<rparr>)"
  by (simp add: submit_def BaseRequest_init_def commit_def push_def)

lemma Session_read_never_raises: "fst (Session_read w s m) = Inr (next_future w)"
  by (simp add: Session_read_def Let_def submit_eq ReadRequest_init_def BaseRequest_init_def
      commit_def split: option.splits)

lemma read_all_call:
  assumes neg: "(case n' of Some n \<Rightarrow> n | None \<Rightarrow> - 1) < 0"
    and idle: "pending (sessions w s) = [] \<and> subsession (sessions w s) = None"
    and line: "buffer (sessions w s) = []
      \<longrightarrow> fst (readline (istreams w (stdin (sessions w s)))) = Inr l"
  shows "case Session_read w s n' of (r, w1) \<Rightarrow>
        r = Inr (next_future w)
        \<and> pending (sessions w1 s) = [\<lparr>kind = ReadAllRequest, cfuture = next_future w\<rparr>]
        \<and> (case runner w1 s of (out, w2) \<Rightarrow>
            out = Returned
            \<and> futures w2 (next_future w)
                = Finished (VStr (if buffer (sessions w s) = [] then l else buffer (sessions w s)))
            \<and> buffer (sessions w2 s) = []
            \<and> calls (istreams w2 (stdin (sessions w s)))
                = calls (istreams w (stdin (sessions w s)))
                  + (if buffer (sessions w s) = [] then 1 else 0))"
proof -
  let ?f = "next_future w"
  let ?req = "\<lparr>kind = ReadAllRequest, cfuture = ?f\<rparr>"
  define w1 where "w1 = snd (submit w s ReadAllRequest)"
  define w1' where "w1' = set_pending w1 s []"
  have read: "Session_read w s n' = (Inr ?f, w1)"
    using neg by (simp add: Session_read_def Let_def w1_def submit_eq)
  have one: "pending (sessions w1 s) = [?req]" and idle1: "subsession (sessions w1 s) = None"
    using idle by (simp_all add: w1_def submit_eq)
  have fresh: "futures w1' ?f = Pending"
    by (simp add: w1'_def w1_def submit_eq set_pending_def)
  have buf: "buffer (sessions w1' s) = buffer (sessions w s)"
    and inp: "stdin (sessions w1' s) = stdin (sessions w s)"
    and str: "istreams w1' = istreams w"
    by (simp_all add: w1'_def w1_def submit_eq set_pending_def)
  show ?thesis
  proof (cases "buffer (sessions w s) = []")
    case True
    obtain i' where rl: "readline (istreams w (stdin (sessions w s))) = (Inr l, i')"
      using line True by (cases "readline (istreams w (stdin (sessions w s)))") simp
    have c: "calls i' = calls (istreams w (stdin (sessions w s))) + 1"
      using readline_calls [of "istreams w (stdin (sessions w s))"] rl by simp
    have "BaseReadRequest_execute ReadAllRequest_execute w1' s ?f =
       (Returned, w1'\<lparr>istreams := (istreams w1')(stdin (sessions w1' s) := i'),
                    sessions := (sessions w1')(s := (sessions w1' s)\<lparr>buffer := []\<rparr>),
                    futures := (futures w1')(?f := Finished (VStr l))\<rparr>)"
      using True fresh rl buf inp str
      by (intro BaseReadRequest_execute_refill) (simp_all add: ReadAllRequest_execute_def)
    then have "execute (set_pending w1 s []) s ?req =
       (Returned, w1'\<lparr>istreams := (istreams w1')(stdin (sessions w1' s) := i'),
                    sessions := (sessions w1')(s := (sessions w1' s)\<lparr>buffer := []\<rparr>),
                    futures := (futures w1')(?f := Finished (VStr l))\<rparr>)"
      by (simp add: execute_def w1'_def)
    from runner_one_request [OF idle1 one this] show ?thesis
      using True c read one inp str by simp
  next
    case False
    have "BaseReadRequest_execute ReadAllRequest_execute w1' s ?f =
       (Returned, w1'\<lparr>sessions := (sessions w1')(s := (sessions w1' s)\<lparr>buffer := []\<rparr>),
                    futures := (futures w1')(?f := Finished (VStr (buffer (sessions w1' s))))\<rparr>)"
      using False fresh buf
      by (intro BaseReadRequest_execute_buffered) (simp_all add: ReadAllRequest_execute_def)
    then have "execute (set_pending w1 s []) s ?req =
       (Returned, w1'\<lparr>sessions := (sessions w1')(s := (sessions w1' s)\<lparr>buffer := []\<rparr>),
                    futures := (futures w1')(?f := Finished (VStr (buffer (sessions w1' s))))\<rparr>)"
      by (simp add: execute_def w1'_def)
    from runner_one_request [OF idle1 one this] show ?thesis
      using False read one buf inp str by simp
  qed
qed

text \<open>
  C10: \<open>read\<close> with a negative count, or with none (the default is \<open>-1\<close>), commits a
  \<open>ReadAllRequest\<close>. On a session with nothing queued and no subsession open, the worker
  then returns with the request's future holding everything available (the buffer, or the
  line of the one refill made when the buffer is empty) and the buffer empty. And no
  argument of \<open>read\<close> makes it raise: \<open>ReadRequest\<close> is only built with \<open>n \<ge> 0\<close>, so its
  assertion never fails through \<open>read\<close>.
\<close>

theorem read_negative_is_read_all:
  "(\<forall>m. fst (Session_read w s m) = Inr (next_future w))
   \<and> ((case n' of Some n \<Rightarrow> n | None \<Rightarrow> - 1) < 0
        \<and> pending (sessions w s) = [] \<and> subsession (sessions w s) = None
        \<and> (buffer (sessions w s) = []
              \<longrightarrow> fst (readline (istreams w (stdin (sessions w s)))) = Inr l)
      \<longrightarrow> (case Session_read w s n' of (r, w1) \<Rightarrow>
        r = Inr (next_future w)
        \<and> pending (sessions w1 s) = [\<lparr>kind = ReadAllRequest, cfuture = next_future w\<rparr>]
        \<and> (case runner w1 s of (out, w2) \<Rightarrow>
            out = Returned
            \<and> futures w2 (next_future w)
                = Finished (VStr (if buffer (sessions w s) = [] then l else buffer (sessions w s)))
            \<and> buffer (sessions w2 s) = []
            \<and> calls (istreams w2 (stdin (sessions w s)))
                = calls (istreams w (stdin (sessions w s)))
                  + (if buffer (sessions w s) = [] then 1 else 0))))"
proof (intro conjI allI impI)
  fix m show "fst (Session_read w s m) = Inr (next_future w)"
    by (rule Session_read_never_raises)
next
  assume "(case n' of Some n \<Rightarrow> n | None \<Rightarrow> - 1) < 0
        \<and> pending (sessions w s) = [] \<and> subsession (sessions w s) = None
        \<and> (buffer (sessions w s) = []
              \<longrightarrow> fst (readline (istreams w (stdin (sessions w s)))) = Inr l)"
  then show "case Session_read w s n' of (r, w1) \<Rightarrow>
        r = Inr (next_future w)
        \<and> pending (sessions w1 s) = [\<lparr>kind = ReadAllRequest, cfuture = next_future w\<rparr>]
        \<and> (case runner w1 s of (out, w2) \<Rightarrow>
            out = Returned
            \<and> futures w2 (next_future w)
                = Finished (VStr (if buffer (sessions w s) = [] then l else buffer (sessions w s)))
            \<and> buffer (sessions w2 s) = []
            \<and> calls (istreams w2 (stdin (sessions w s)))
                = calls (istreams w (stdin (sessions w s)))
                  + (if buffer (sessions w s) = [] then 1 else 0))"
    by (intro read_all_call) simp_all
qed

theorem read_negative_is_read_all_witness:
  "(case Session_read (seeded ''left over'' [Line ''never read'']) root None of (r, w1) \<Rightarrow>
      r = Inr 0
      \<and> (case runner w1 root of (out, w2) \<Rightarrow>
           out = Returned \<and> futures w2 0 = Finished (VStr ''left over'')
           \<and> buffer (sessions w2 root) = [] \<and> calls (istreams w2 sys_stdin) = 0))
   \<and> (case Session_read (seeded [] [Line ''a line'']) root (Some (- 5)) of (r, w1) \<Rightarrow>
      r = Inr 0
      \<and> (case runner w1 root of (out, w2) \<Rightarrow>
           out = Returned \<and> futures w2 0 = Finished (VStr ''a line'')
           \<and> buffer (sessions w2 root) = [] \<and> calls (istreams w2 sys_stdin) = 1))"
  using read_negative_is_read_all [of "seeded ''left over'' [Line ''never read'']" root None "[]"]
    read_negative_is_read_all [of "seeded [] [Line ''a line'']" root "Some (- 5)" "''a line''"]
  by (simp add: seeded_def module_init_def process_def Session_init_def root_def sys_stdin_def
      sys_stdout_def sys_stderr_def typed_def quiet_def Event_new_def readline_def Let_def
      Session_read_def submit_eq runner_def pop_Cons pop_Nil_timeout set_pending_def
      execute_def BaseReadRequest_execute_def ReadAllRequest_execute_def isempty_def
      io_readline_def try_set_result_def set_result_def)

section \<open>Writing\<close>





section \<open>Closing and entering\<close>



lemma runner_nothing_pending:
  "pending (sessions w s) = [] \<Longrightarrow> runner w s = (Blocked, w)"
  by (simp add: runner_def pop_Nil_forever split: option.splits)

text \<open>
  C7: \<open>close()\<close> on a session other than the root returns, and the state differs from the
  one before in two fields of that session only: its queue is empty and its finish
  event has been set, by one call of \<open>set()\<close>. So \<open>wait()\<close> returns; the buffer, the
  configuration and the streams are as before; no future has changed, so the futures of
  the requests that were queued are as unresolved as they were. They stay so: a worker
  already in its loop pops null, and a worker started afterwards finds nothing to
  execute and changes nothing.
\<close>

theorem close_discards_pending:
  assumes "s \<noteq> root"
  shows "case Session_close w s of (r, w') \<Rightarrow>
      r = Inr ()
      \<and> w' = w\<lparr>sessions := (sessions w)
                  (s := (sessions w s)\<lparr>pending := [],
                         finish_event := Event_set (finish_event (sessions w s))\<rparr>)\<rparr>
      \<and> pending (sessions w' s) = []
      \<and> futures w' = futures w
      \<and> set_calls (finish_event (sessions w' s)) = set_calls (finish_event (sessions w s)) + 1
      \<and> Session_wait w' s = Returned
      \<and> buffer (sessions w' s) = buffer (sessions w s)
      \<and> autoflush (sessions w' s) = autoflush (sessions w s)
      \<and> stdout (sessions w' s) = stdout (sessions w s)
      \<and> stderr (sessions w' s) = stderr (sessions w s)
      \<and> stdin (sessions w' s) = stdin (sessions w s)
      \<and> ostreams w' = ostreams w \<and> istreams w' = istreams w
      \<and> (\<forall>t. t \<noteq> s \<longrightarrow> sessions w' t = sessions w t)
      \<and> pop (pending (sessions w' s)) (Some grace) [] = Some (None, [])
      \<and> runner w' s = (Blocked, w')"
  using assms
  by (simp add: Session_close_def clear_def Event_set_def Session_wait_def is_set_def
      pop_Nil_timeout runner_nothing_pending)

theorem close_discards_pending_witness:
  "(case session (module_init (\<lambda>_. quiet) (\<lambda>_. typed []) []) None of
      (f, w1) \<Rightarrow>
        case runner w1 root of (out, w2) \<Rightarrow>
        case Session_write w2 1 [PStr ''a''] None None None of (f1, w3) \<Rightarrow>
        case Session_write w3 1 [PStr ''b''] None None None of (f2, w4) \<Rightarrow>
        case Session_close w4 1 of (r, w5) \<Rightarrow>
          length (pending (sessions w4 1)) = 2
          \<and> r = Inr () \<and> pending (sessions w5 1) = []
          \<and> futures w5 f1 = Pending \<and> futures w5 f2 = Pending
          \<and> set_calls (finish_event (sessions w5 1)) = 1
          \<and> Session_wait w4 1 = Blocked \<and> Session_wait w5 1 = Returned
          \<and> fst (runner w5 1) = Blocked
          \<and> futures (snd (runner w5 1)) f1 = Pending \<and> futures (snd (runner w5 1)) f2 = Pending
          \<and> stream_text (ostreams (snd (runner w5 1)) sys_stdout) = [])"
  using close_discards_pending
    [of 1 "snd (Session_write (snd (Session_write
        (snd (runner (snd (session (module_init (\<lambda>_. quiet) (\<lambda>_. typed []) []) None)) root))
        1 [PStr ''a''] None None None)) 1 [PStr ''b''] None None None)" 10]
  by (simp add: module_init_def process_def Session_init_def root_def sys_stdin_def
      sys_stdout_def sys_stderr_def typed_def quiet_def Event_new_def Let_def
      session_def Session_session_def Session_write_def buildmsg_def submit_eq
      runner_def pop_Cons pop_Nil_timeout pop_Nil_forever
      set_pending_def execute_def SessionRequest_execute_def Session_wait_def is_set_def
      set_result_def Session_close_def clear_def Event_set_def stream_text_def no_session_def)

section \<open>The autoflush of a new session\<close>

lemma Session_session_inherits:
  "autoflush (sessions (snd (Session_session w s None so se si)) (next_session w))
     = autoflush (sessions w s)"
  by (simp add: Session_session_def Session_init_def Let_def submit_eq)

lemma Session_session_explicit:
  "autoflush (sessions (snd (Session_session w s (Some a) so se si)) (next_session w)) = a"
  by (simp add: Session_session_def Session_init_def Let_def submit_eq)

text \<open>
  Against C2 as stated: the module's root session has autoflush true, and the subsession
  that the module's \<open>session()\<close> opens with no argument has autoflush false, although
  the root is its parent; and a session built with no parent and no autoflush has autoflush
  false.
\<close>

theorem toplevel_session_does_not_inherit:
  "autoflush (sessions (module_init (\<lambda>_. quiet) (\<lambda>_. typed []) []) root) = True
   \<and> autoflush (sessions (snd (session (module_init (\<lambda>_. quiet) (\<lambda>_. typed []) []) None)) 1)
       \<noteq> autoflush (sessions (snd (session (module_init (\<lambda>_. quiet) (\<lambda>_. typed []) []) None)) root)
   \<and> parent (sessions (snd (session (module_init (\<lambda>_. quiet) (\<lambda>_. typed []) []) None)) 1)
       = Some root
   \<and> autoflush (sessions (snd (Session_init (process (\<lambda>_. quiet) (\<lambda>_. typed []) [])
        None None None None None)) 0) \<noteq> True"
  by (simp add: module_init_def process_def Session_init_def root_def sys_stdin_def
      sys_stdout_def sys_stderr_def Event_new_def Let_def session_def Session_session_def
      submit_eq)

text \<open>
  C2, amended: a subsession opened by \<open>Session.session\<close> without an autoflush value has
  the autoflush its parent has at that moment, and with a value it has that value. The
  module's root session has autoflush true, because the module builds it with
  \<open>autoflush=True\<close>: a session built with no parent and no autoflush value has false. The
  module's \<open>session()\<close> has a default of its own, false, and passes its argument on as
  an explicit value: with no argument the subsession's autoflush is false.
\<close>

theorem autoflush_default:
  "autoflush (sessions (snd (Session_session w s None so se si)) (next_session w))
     = autoflush (sessions w s)
   \<and> autoflush (sessions (snd (Session_session w s (Some a) so se si)) (next_session w)) = a
   \<and> autoflush (sessions (module_init outs ins keys) root) = True
   \<and> autoflush (sessions (snd (session w None)) (next_session w)) = False
   \<and> autoflush (sessions (snd (session w (Some a))) (next_session w)) = a
   \<and> autoflush (sessions (snd (Session_init w None None so se si)) (next_session w)) = False"
  by (simp add: Session_session_inherits Session_session_explicit session_def)
    (simp add: module_init_def process_def Session_init_def root_def Let_def)

theorem autoflush_default_witness:
  "(case Session_session (module_init (\<lambda>_. quiet) (\<lambda>_. typed []) []) root None None None None of
      (f, w1) \<Rightarrow>
        autoflush (sessions w1 1) = True \<and> parent (sessions w1 1) = Some root
        \<and> (case Session_session w1 1 (Some False) None None None of
             (f', w2) \<Rightarrow>
               autoflush (sessions w2 2) = False
               \<and> (case Session_session w2 2 None None None None of
                    (f'', w3) \<Rightarrow> autoflush (sessions w3 3) = False)))
   \<and> autoflush (sessions (snd (session (module_init (\<lambda>_. quiet) (\<lambda>_. typed []) []) None)) 1)
       = False"
  using autoflush_default [of "module_init (\<lambda>_. quiet) (\<lambda>_. typed []) []" root]
  by (simp add: module_init_def process_def Session_init_def root_def sys_stdin_def
      sys_stdout_def sys_stderr_def Event_new_def Let_def session_def Session_session_def
      submit_eq)

section \<open>Flushing, and failures inside the worker\<close>

lemma FlushRequest_execute_rejects:
  "FlushRequest_execute fo fe w s f =
     (if futures w f = Pending
      then (Returned,
            w\<lparr>futures := (futures w)
                 (f := Failed (AttributeError ''Session object has no attribute get''))\<rparr>)
      else (Raised (InvalidStateError ''future is done''), w))"
  by (simp add: FlushRequest_execute_def Session_get_def except_clauses_def set_exception_def)

text \<open>
  C1 fails on the code: \<open>FlushRequest.execute\<close> never reaches a \<open>flush()\<close>. Whatever
  the flags, the session and the streams, it leaves every output stream as it was. On the
  root session with text waiting in both streams, \<open>flush(True, True)\<close> ends with the
  request's future rejected with the \<open>AttributeError\<close> of \<open>session.get()\<close>, and the
  text is still waiting.
\<close>

theorem flush_never_flushes:
  "ostreams (snd (FlushRequest_execute flush_stdout flush_stderr w s f)) = ostreams w
   \<and> (case Session_flush (module_init (\<lambda>_. unflushed ''waiting'') (\<lambda>_. typed []) []) root
             (Some True) (Some True) of
        (f, w1) \<Rightarrow>
          case runner w1 root of (out, w2) \<Rightarrow>
            out = Returned
            \<and> futures w2 f = Failed (AttributeError ''Session object has no attribute get'')
            \<and> buffered (ostreams w2 sys_stdout) = ''waiting''
            \<and> delivered (ostreams w2 sys_stdout) = []
            \<and> buffered (ostreams w2 sys_stderr) = ''waiting''
            \<and> delivered (ostreams w2 sys_stderr) = [])"
  by (simp add: FlushRequest_execute_rejects)
    (simp add: module_init_def process_def Session_init_def root_def sys_stdin_def
      sys_stdout_def sys_stderr_def Event_new_def Let_def unflushed_def typed_def
      Session_flush_def submit_eq runner_def pop_Cons pop_Nil_timeout set_pending_def
      execute_def FlushRequest_execute_rejects)

text \<open>
  C8 fails on the code for the read requests: the refill stands before the \<open>try\<close>. With
  an input stream whose \<open>readline\<close> raises \<open>OSError\<close>, \<open>read(2)\<close> followed by a
  \<open>write\<close> on the root: the worker is left by the exception, the future of the read is
  still pending, the write stays in the queue with its future pending, nothing is written,
  and the session still holds its dead worker. A \<open>write\<close> on a stream that raises the
  same \<open>OSError\<close> is what the claim says: its future is rejected and the worker goes on
  to the next request. And a stream call that raises \<open>KeyboardInterrupt\<close> leaves the
  worker with the future pending.
\<close>

theorem read_fault_escapes_worker:
  "(case Session_read (module_init (\<lambda>_. quiet) (\<lambda>_. typed [Fault (OSError ''closed'')]) [])
          root (Some 2) of
      (r, w1) \<Rightarrow>
        case Session_write w1 root [PStr ''next''] None None None of (f2, w2) \<Rightarrow>
        case runner w2 root of (out, w3) \<Rightarrow>
          r = Inr 0 \<and> f2 = 1
          \<and> out = Raised (OSError ''closed'')
          \<and> futures w3 0 = Pending \<and> futures w3 1 = Pending
          \<and> length (pending (sessions w3 root)) = 1
          \<and> thread (sessions w3 root) = True
          \<and> stream_text (ostreams w3 sys_stdout) = [])
   \<and> (case Session_write (module_init (\<lambda>_. broken (OSError ''closed'')) (\<lambda>_. typed []) [])
          root [PStr ''first''] None None None of
      (f1, w1) \<Rightarrow>
        case Session_read w1 root None of (r, w2) \<Rightarrow>
        case runner w2 root of (out, w3) \<Rightarrow>
          f1 = 0 \<and> r = Inr 1
          \<and> out = Returned
          \<and> futures w3 0 = Failed (OSError ''closed'')
          \<and> futures w3 1 = Finished (VStr [])
          \<and> pending (sessions w3 root) = []
          \<and> thread (sessions w3 root) = False)
   \<and> (case Session_write (module_init (\<lambda>_. broken KeyboardInterrupt) (\<lambda>_. typed []) [])
          root [PStr ''first''] None None None of
      (f1, w1) \<Rightarrow>
        case runner w1 root of (out, w2) \<Rightarrow>
          out = Raised KeyboardInterrupt \<and> futures w2 f1 = Pending)"
  by (simp add: module_init_def process_def Session_init_def root_def sys_stdin_def
      sys_stdout_def sys_stderr_def Event_new_def Let_def quiet_def broken_def typed_def
      Session_read_def Session_write_def buildmsg_def ReadRequest_init_def BaseRequest_init_def
      commit_def push_def submit_eq runner_def pop_Cons pop_Nil_timeout set_pending_def
      execute_def BaseReadRequest_execute_def ReadAllRequest_execute_def isempty_def
      io_readline_def readline_def
      WriteRequest_execute_def io_write_def ostream_write_def except_clauses_def
      set_exception_def try_set_result_def set_result_def stream_text_def)

end
